theory Spec2Isabelle
  imports Complex_Main
begin

section \<open>Rate limiting utility (rateLimit.ts)\<close>

text \<open>
  The utility talks to the database only through the Supabase client it is handed.
  The model keeps that boundary: the client is a function from the request the code
  builds to the outcome of the awaited promise, and every function returns, next to its
  value, the requests it issued and the lines it wrote to the console.

  A JavaScript \<open>Date\<close> is its \<open>getTime()\<close>, milliseconds since the epoch; a
  \<open>timestamptz\<close> of the database counts microseconds. Counts are the natural numbers
  PostgREST reports, \<open>null\<close> is \<open>None\<close>. The limits of a configuration and
  \<open>remaining\<close> are of type \<open>number\<close>, which nothing in the code restricts to whole
  numbers; a number is a real number here, so the rounding of doubles, \<open>NaN\<close> and the
  infinities are not modelled.
\<close>

type_synonym js_date = int
type_synonym timestamptz = int
type_synonym uuid = string

text \<open>An awaited promise either resolves to a value or rejects, which throws.\<close>

datatype 'a js_outcome = Resolved 'a | Rejected string

record RateLimitConfig =
  operation :: string
  userId :: string
  limitsPerHour :: real
  limitsPerDay :: real

record RateLimitResult =
  allowed :: bool
  remaining :: real
  resetAtHour :: js_date
  resetAtDay :: js_date
  message :: "string option"

text \<open>
  A request built with \<open>.from(t).select('*', {count: 'exact', head: true})\<close> followed by
  filters: the table and the filters in the order the code adds them.
\<close>

datatype pg_filter = Eq string string | Gte string timestamptz

record select_query =
  from_table :: string
  filters :: "pg_filter list"

text \<open>The reply \<open>{count, error}\<close> the code destructures.\<close>

record count_response =
  count :: "nat option"
  error :: "string option"

type_synonym supabase_select = "select_query \<Rightarrow> count_response js_outcome"

record effects =
  queries :: "select_query list"
  console :: "string list"

text \<open>\<open>date.toISOString()\<close> read back by the database as a \<open>timestamptz\<close>.\<close>

definition toISOString :: "js_date \<Rightarrow> timestamptz" where
  "toISOString d = d * 1000"

text \<open>
  \<open>String(x)\<close> as a template literal prints a number: the decimal numeral of the whole
  part and, for a fraction, a point and the digits after it (at most 17). Exponent
  notation, which starts at \<open>1e21\<close>, is not modelled.
\<close>

definition digit_char :: "nat \<Rightarrow> char" where
  "digit_char d = ''0123456789'' ! d"

fun nat_toString :: "nat \<Rightarrow> string" where
  "nat_toString n =
     (if n < 10 then [digit_char n] else nat_toString (n div 10) @ [digit_char (n mod 10)])"

declare nat_toString.simps [simp del]

fun fraction_digits :: "nat \<Rightarrow> real \<Rightarrow> string" where
  "fraction_digits 0 x = []"
| "fraction_digits (Suc n) x =
     (if x = 0 then []
      else digit_char (nat \<lfloor>x * 10\<rfloor>) #
           fraction_digits n (x * 10 - of_int \<lfloor>x * 10\<rfloor>))"

definition unsigned_toString :: "real \<Rightarrow> string" where
  "unsigned_toString x =
     nat_toString (nat \<lfloor>x\<rfloor>) @
     (if x = of_int \<lfloor>x\<rfloor> then []
      else CHR ''.'' # fraction_digits 17 (x - of_int \<lfloor>x\<rfloor>))"

definition number_toString :: "real \<Rightarrow> string" where
  "number_toString x =
     (if x < 0 then CHR ''-'' # unsigned_toString (- x) else unsigned_toString x)"

text \<open>\<open>count || 0\<close>: \<open>null\<close> and \<open>0\<close> both give \<open>0\<close>.\<close>

definition or_zero :: "nat option \<Rightarrow> real" where
  "or_zero c = (case c of None \<Rightarrow> 0 | Some n \<Rightarrow> real n)"

text \<open>The request of lines 40-45 (and 60-65) for a window that starts at \<open>since\<close>.\<close>

definition count_query :: "RateLimitConfig \<Rightarrow> js_date \<Rightarrow> select_query" where
  "count_query config since =
     \<lparr>from_table = ''rate_limit_logs'',
      filters = [Eq ''user_id'' (userId config),
                 Eq ''operation'' (operation config),
                 Gte ''created_at'' (toISOString since)]\<rparr>"

definition check_failed_message :: string where
  "check_failed_message = ''Rate limit check failed (allowing request)''"

definition hourly_message :: "RateLimitConfig \<Rightarrow> string" where
  "hourly_message config =
     ''Rate limit exceeded for '' @ operation config @ ''. Max '' @
     number_toString (limitsPerHour config) @ '' requests per hour. Try again in an hour.''"

definition daily_message :: "RateLimitConfig \<Rightarrow> string" where
  "daily_message config =
     ''Daily limit exceeded for '' @ operation config @ ''. Max '' @
     number_toString (limitsPerDay config) @ '' requests per day. Try again tomorrow.''"

text \<open>
  Every object literal the function returns has the same two reset times; they differ in
  \<open>allowed\<close>, \<open>remaining\<close> and \<open>message\<close>.
\<close>

definition result_at :: "js_date \<Rightarrow> bool \<Rightarrow> real \<Rightarrow> string option \<Rightarrow> RateLimitResult" where
  "result_at now a r m =
     \<lparr>allowed = a, remaining = r,
      resetAtHour = now + 60 * 60 * 1000,
      resetAtDay = now + 24 * 60 * 60 * 1000,
      message = m\<rparr>"

text \<open>The \<open>catch\<close> block of lines 113-122.\<close>

definition caught :: "js_date \<Rightarrow> RateLimitConfig \<Rightarrow> select_query list \<Rightarrow> RateLimitResult \<times> effects" where
  "caught now config qs =
     (result_at now True (limitsPerHour config) None,
      \<lparr>queries = qs, console = [''Unexpected error in rate limit check:'']\<rparr>)"

text \<open>
  \<open>checkRateLimit\<close>, statement by statement: the hourly request and its error test, the
  daily request and its error test, then the two comparisons. \<open>now\<close> is the value of
  \<open>new Date()\<close> on entry.
\<close>

definition checkRateLimit :: "supabase_select \<Rightarrow> js_date \<Rightarrow> RateLimitConfig \<Rightarrow> RateLimitResult \<times> effects" where
  "checkRateLimit supabaseClient now config =
     (let hourAgo = now - 60 * 60 * 1000;
          dayAgo = now - 24 * 60 * 60 * 1000;
          hourlyQuery = count_query config hourAgo;
          dailyQuery = count_query config dayAgo
      in case supabaseClient hourlyQuery of
           Rejected e \<Rightarrow> caught now config [hourlyQuery]
         | Resolved hourly \<Rightarrow>
             if error hourly \<noteq> None then
               (result_at now True (limitsPerHour config) (Some check_failed_message),
                \<lparr>queries = [hourlyQuery],
                 console = [''Error checking hourly rate limit:'']\<rparr>)
             else
               (case supabaseClient dailyQuery of
                  Rejected e \<Rightarrow> caught now config [hourlyQuery, dailyQuery]
                | Resolved daily \<Rightarrow>
                    if error daily \<noteq> None then
                      (result_at now True (limitsPerDay config) (Some check_failed_message),
                       \<lparr>queries = [hourlyQuery, dailyQuery],
                        console = [''Error checking daily rate limit:'']\<rparr>)
                    else
                      (let hourlyUsed = or_zero (count hourly);
                           dailyUsed = or_zero (count daily);
                           io = \<lparr>queries = [hourlyQuery, dailyQuery], console = []\<rparr>
                       in if hourlyUsed \<ge> limitsPerHour config then
                            (result_at now False 0 (Some (hourly_message config)), io)
                          else if dailyUsed \<ge> limitsPerDay config then
                            (result_at now False 0 (Some (daily_message config)), io)
                          else
                            (result_at now True (limitsPerHour config - hourlyUsed - 1) None,
                             io))))"

text \<open>The table \<open>DEFAULT_RATE_LIMITS\<close>: operation, hourly limit, daily limit, credits.\<close>

definition DEFAULT_RATE_LIMITS :: "(string \<times> real \<times> real \<times> real) list" where
  "DEFAULT_RATE_LIMITS =
     [(''generate-notes'', 3, 10, 4),
      (''generate-quiz'', 5, 20, 4),
      (''find-video'', 10, 50, 1),
      (''adaptive-question'', 20, 100, 0),
      (''analyze-weakness'', 3, 15, 0),
      (''fix-weak-areas-quiz'', 3, 10, 4)]"

text \<open>The configuration an edge function builds for a user from that table.\<close>

definition config_for :: "string \<Rightarrow> string \<Rightarrow> RateLimitConfig option" where
  "config_for uid op =
     (case map_of DEFAULT_RATE_LIMITS op of
        None \<Rightarrow> None
      | Some (h, d, c) \<Rightarrow>
          Some \<lparr>operation = op, userId = uid, limitsPerHour = h, limitsPerDay = d\<rparr>)"

text \<open>
  \<open>logRateLimitRequest\<close> inserts the object
  \<open>{user_id, operation, success, metadata, ip_address: null}\<close>; the fields carry the
  prefix \<open>ins\<close> here, \<open>operation\<close> being a field of the configuration already.
\<close>

record rate_limit_logs_insert =
  ins_user_id :: string
  ins_operation :: string
  ins_success :: bool
  ins_metadata :: "string option"
  ins_ip_address :: "string option"

text \<open>The awaited insert resolves to \<open>{data, error}\<close>, of which only the error matters.\<close>

type_synonym supabase_insert = "rate_limit_logs_insert \<Rightarrow> string option js_outcome"

text \<open>
  \<open>logRateLimitRequest\<close>: the insert is awaited inside \<open>try\<close>, its reply is not looked at,
  and the \<open>catch\<close> block writes to the console and does not rethrow. The outcome is that
  of the promise the \<open>async\<close> function returns.
\<close>

definition logRateLimitRequest ::
  "supabase_insert \<Rightarrow> string \<Rightarrow> string \<Rightarrow> bool \<Rightarrow> string option \<Rightarrow> unit js_outcome \<times> string list" where
  "logRateLimitRequest supabaseClient uid op ok metadata =
     (case supabaseClient \<lparr>ins_user_id = uid, ins_operation = op, ins_success = ok,
                           ins_metadata = metadata, ins_ip_address = None\<rparr> of
        Rejected e \<Rightarrow> (Resolved (), [''Error logging rate limit request:''])
      | Resolved reply \<Rightarrow> (Resolved (), []))"

section \<open>Tables and functions of the migration\<close>

text \<open>
  The two tables with their columns (prefix \<open>rl\<close> and \<open>al\<close>), and \<open>auth.users\<close> as the
  identifiers both tables reference. A nullable column or parameter is an option; a
  condition is a three-valued \<open>bool option\<close>, and \<open>IF\<close> and \<open>WHERE\<close> take only
  \<open>TRUE\<close>. Counts are unbounded here: a window holds far fewer rows than the
  \<open>INTEGER\<close> variables can.
\<close>

record rate_limit_logs_row =
  rl_id :: uuid
  rl_user_id :: uuid
  rl_operation :: string
  rl_success :: bool
  rl_metadata :: "string option"
  rl_ip_address :: "string option"
  rl_created_at :: timestamptz

record audit_logs_row =
  al_id :: uuid
  al_user_id :: uuid
  al_action :: string
  al_resource_type :: string
  al_resource_id :: "string option"
  al_metadata :: "string option"
  al_ip_address :: "string option"
  al_user_agent :: "string option"
  al_created_at :: timestamptz

record database =
  auth_users :: "uuid list"
  rate_limit_logs :: "rate_limit_logs_row list"
  audit_logs :: "audit_logs_row list"

type_synonym sql_bool = "bool option"

definition sql_eq :: "'a option \<Rightarrow> 'a option \<Rightarrow> sql_bool" where
  "sql_eq a b = (case a of None \<Rightarrow> None
                 | Some x \<Rightarrow> (case b of None \<Rightarrow> None | Some y \<Rightarrow> Some (x = y)))"

definition sql_ne :: "'a option \<Rightarrow> 'a option \<Rightarrow> sql_bool" where
  "sql_ne a b = (case a of None \<Rightarrow> None
                 | Some x \<Rightarrow> (case b of None \<Rightarrow> None | Some y \<Rightarrow> Some (x \<noteq> y)))"

definition sql_gt :: "timestamptz option \<Rightarrow> timestamptz option \<Rightarrow> sql_bool" where
  "sql_gt a b = (case a of None \<Rightarrow> None
                 | Some x \<Rightarrow> (case b of None \<Rightarrow> None | Some y \<Rightarrow> Some (x > y)))"

definition sql_and :: "sql_bool \<Rightarrow> sql_bool \<Rightarrow> sql_bool" where
  "sql_and a b =
     (if a = Some False \<or> b = Some False then Some False
      else if a = Some True \<and> b = Some True then Some True
      else None)"

definition is_true :: "sql_bool \<Rightarrow> bool" where
  "is_true b = (b = Some True)"

text \<open>\<open>COUNT(*)\<close> and \<open>MIN(col)\<close> over the rows a \<open>WHERE\<close> clause keeps, as one scan.\<close>

fun count_star :: "('r \<Rightarrow> sql_bool) \<Rightarrow> 'r list \<Rightarrow> nat" where
  "count_star w [] = 0"
| "count_star w (r # rs) = (if is_true (w r) then Suc (count_star w rs) else count_star w rs)"

fun min_agg :: "('r \<Rightarrow> sql_bool) \<Rightarrow> ('r \<Rightarrow> timestamptz) \<Rightarrow> 'r list \<Rightarrow> timestamptz option" where
  "min_agg w col [] = None"
| "min_agg w col (r # rs) =
     (if is_true (w r)
      then (case min_agg w col rs of None \<Rightarrow> Some (col r) | Some m \<Rightarrow> Some (min (col r) m))
      else min_agg w col rs)"

text \<open>
  The \<open>WHERE\<close> clause of both statements of \<open>get_rate_limit_status\<close>:
  \<open>user_id = p_user_id AND operation = p_operation AND created_at > since\<close>.
\<close>

definition window_where ::
  "uuid option \<Rightarrow> string option \<Rightarrow> timestamptz \<Rightarrow> rate_limit_logs_row \<Rightarrow> sql_bool" where
  "window_where p_user_id p_operation since r =
     sql_and (sql_and (sql_eq (Some (rl_user_id r)) p_user_id)
                      (sql_eq (Some (rl_operation r)) p_operation))
             (sql_gt (Some (rl_created_at r)) (Some since))"

text \<open>\<open>SELECT COUNT(*), MIN(created_at) FROM public.rate_limit_logs WHERE ...\<close>\<close>

definition select_count_min ::
  "database \<Rightarrow> uuid option \<Rightarrow> string option \<Rightarrow> timestamptz \<Rightarrow> nat \<times> timestamptz option" where
  "select_count_min db p_user_id p_operation since =
     (count_star (window_where p_user_id p_operation since) (rate_limit_logs db),
      min_agg (window_where p_user_id p_operation since) rl_created_at (rate_limit_logs db))"

text \<open>The intervals, in microseconds; a day is 24 hours (the session time zone is UTC).\<close>

definition interval_1_hour :: timestamptz where
  "interval_1_hour = 3600000000"

definition interval_1_day :: timestamptz where
  "interval_1_day = 86400000000"

record rate_limit_status =
  requests_this_hour :: int
  requests_this_day :: int
  hour_resets_at :: "timestamptz option"
  day_resets_at :: "timestamptz option"

datatype sql_error =
    raise_exception string
  | not_null_violation string
  | unique_violation string
  | foreign_key_violation string

text \<open>
  \<open>get_rate_limit_status\<close>. \<open>auth_uid\<close> is the value of \<open>auth.uid()\<close>, \<open>NULL\<close> for a caller
  whose token names no user; \<open>NOW\<close> is the transaction time. The second component lists
  the tables the call has read.
\<close>

definition get_rate_limit_status ::
  "database \<Rightarrow> uuid option \<Rightarrow> timestamptz \<Rightarrow> uuid option \<Rightarrow> string option \<Rightarrow>
   (sql_error + rate_limit_status) \<times> string list" where
  "get_rate_limit_status db auth_uid NOW p_user_id p_operation =
     (if is_true (sql_ne p_user_id auth_uid) then
        (Inl (raise_exception ''Unauthorized: Users can only check their own rate limits''), [])
      else
        (let v_hour_ago = NOW - interval_1_hour;
             v_day_ago = NOW - interval_1_day;
             (v_hour_count, v_oldest_hour_time) =
                select_count_min db p_user_id p_operation v_hour_ago;
             (v_day_count, v_oldest_day_time) =
                select_count_min db p_user_id p_operation v_day_ago
         in (Inr \<lparr>requests_this_hour = int v_hour_count,
                  requests_this_day = int v_day_count,
                  hour_resets_at =
                    (if v_hour_count > 0
                     then map_option (\<lambda>t. t + interval_1_hour) v_oldest_hour_time else None),
                  day_resets_at =
                    (if v_day_count > 0
                     then map_option (\<lambda>t. t + interval_1_day) v_oldest_day_time else None)\<rparr>,
             [''rate_limit_logs'', ''rate_limit_logs''])))"

text \<open>
  \<open>INSERT INTO public.audit_logs\<close> under the constraints of the table: \<open>user_id\<close>,
  \<open>action\<close> and \<open>resource_type\<close> are \<open>NOT NULL\<close>, \<open>id\<close> is the primary key and \<open>user_id\<close>
  references \<open>auth.users\<close>. \<open>new_id\<close> is the value \<open>gen_random_uuid()\<close> draws.
\<close>

definition insert_audit_logs ::
  "database \<Rightarrow> uuid \<Rightarrow> timestamptz \<Rightarrow> uuid option \<Rightarrow> string option \<Rightarrow> string option \<Rightarrow>
   string option \<Rightarrow> string option \<Rightarrow> sql_error + database" where
  "insert_audit_logs db new_id NOW p_user_id p_action p_resource_type p_resource_id p_metadata =
     (case p_user_id of
        None \<Rightarrow> Inl (not_null_violation ''user_id'')
      | Some u \<Rightarrow>
     (case p_action of
        None \<Rightarrow> Inl (not_null_violation ''action'')
      | Some a \<Rightarrow>
     (case p_resource_type of
        None \<Rightarrow> Inl (not_null_violation ''resource_type'')
      | Some t \<Rightarrow>
          if new_id \<in> set (map al_id (audit_logs db)) then
            Inl (unique_violation ''audit_logs_pkey'')
          else if u \<notin> set (auth_users db) then
            Inl (foreign_key_violation ''audit_logs_user_id_fkey'')
          else
            Inr (db\<lparr>audit_logs := audit_logs db @
                   [\<lparr>al_id = new_id, al_user_id = u, al_action = a, al_resource_type = t,
                     al_resource_id = p_resource_id, al_metadata = p_metadata,
                     al_ip_address = None, al_user_agent = None,
                     al_created_at = NOW\<rparr>]\<rparr>))))"

text \<open>
  \<open>log_audit_event\<close>: the insert and \<open>RETURN v_audit_id\<close>. The body has no
  \<open>EXCEPTION\<close> section, so an error of the insert is the error of the call.
\<close>

definition log_audit_event ::
  "database \<Rightarrow> uuid \<Rightarrow> timestamptz \<Rightarrow> uuid option \<Rightarrow> string option \<Rightarrow> string option \<Rightarrow>
   string option \<Rightarrow> string option \<Rightarrow> sql_error + (uuid \<times> database)" where
  "log_audit_event db new_id NOW p_user_id p_action p_resource_type p_resource_id p_metadata =
     (case insert_audit_logs db new_id NOW p_user_id p_action p_resource_type
             p_resource_id p_metadata of
        Inl e \<Rightarrow> Inl e
      | Inr db' \<Rightarrow> Inr (new_id, db'))"

section \<open>The service behind the client\<close>

text \<open>
  What the database service answers to a count request of \<open>checkRateLimit\<close> when nothing
  fails: \<open>eq\<close> is equality on the named column, \<open>gte\<close> is \<open>\<ge>\<close>, the filters are joined
  by \<open>AND\<close>, and with \<open>count: 'exact', head: true\<close> the reply is the number of rows that
  pass. The service is not part of the repository; this is its documented reading of
  the request, used where a claim speaks of the rows behind a count.
\<close>

fun filter_known :: "pg_filter \<Rightarrow> bool" where
  "filter_known (Eq col v) = (col = ''user_id'' \<or> col = ''operation'')"
| "filter_known (Gte col t) = (col = ''created_at'')"

fun row_matches :: "rate_limit_logs_row \<Rightarrow> pg_filter \<Rightarrow> bool" where
  "row_matches r (Eq col v) =
     (if col = ''user_id'' then rl_user_id r = v
      else if col = ''operation'' then rl_operation r = v
      else False)"
| "row_matches r (Gte col t) = (col = ''created_at'' \<and> rl_created_at r \<ge> t)"

definition postgrest_count :: "database \<Rightarrow> supabase_select" where
  "postgrest_count db q =
     (if from_table q = ''rate_limit_logs'' \<and> list_all filter_known (filters q) then
        Resolved \<lparr>count = Some (count_star (\<lambda>r. Some (list_all (row_matches r) (filters q)))
                                            (rate_limit_logs db)),
                  error = None\<rparr>
      else
        Resolved \<lparr>count = None, error = Some ''PGRST: unknown table or column''\<rparr>)"

section \<open>The entries of a window\<close>

text \<open>
  The request-log entries of a user and an operation that a window starting at \<open>since\<close>
  holds: those created after \<open>since\<close>. This is the reading the counts are compared with.
\<close>

definition entries_in_window :: "database \<Rightarrow> uuid \<Rightarrow> string \<Rightarrow> timestamptz \<Rightarrow> rate_limit_logs_row list" where
  "entries_in_window db u op since =
     filter (\<lambda>r. rl_user_id r = u \<and> rl_operation r = op \<and> since < rl_created_at r)
            (rate_limit_logs db)"

section \<open>Example inputs\<close>

text \<open>A client that answers the hourly request with one outcome and any other with another.\<close>

definition scripted_client ::
  "js_date \<Rightarrow> RateLimitConfig \<Rightarrow> count_response js_outcome \<Rightarrow> count_response js_outcome \<Rightarrow>
   supabase_select" where
  "scripted_client now config hourly_outcome daily_outcome q =
     (if q = count_query config (now - 60 * 60 * 1000) then hourly_outcome else daily_outcome)"

definition notes_config :: RateLimitConfig where
  "notes_config =
     \<lparr>operation = ''generate-notes'', userId = ''user-a'', limitsPerHour = 3, limitsPerDay = 10\<rparr>"

text \<open>A configuration whose hourly limit is not a whole number.\<close>

definition fractional_config :: RateLimitConfig where
  "fractional_config =
     \<lparr>operation = ''generate-notes'', userId = ''user-a'', limitsPerHour = 5 / 2,
      limitsPerDay = 10\<rparr>"

text \<open>A request of user-a for generate-notes logged at the given time.\<close>

definition notes_row :: "uuid \<Rightarrow> timestamptz \<Rightarrow> rate_limit_logs_row" where
  "notes_row i t =
     \<lparr>rl_id = i, rl_user_id = ''user-a'', rl_operation = ''generate-notes'', rl_success = True,
      rl_metadata = None, rl_ip_address = None, rl_created_at = t\<rparr>"

definition one_user_db :: "rate_limit_logs_row list \<Rightarrow> database" where
  "one_user_db rows = \<lparr>auth_users = [''user-a''], rate_limit_logs = rows, audit_logs = []\<rparr>"

section \<open>Facts about the aggregates and the filters\<close>

lemma count_star_filter: "count_star w rs = length (filter (\<lambda>r. is_true (w r)) rs)"
  by (induction rs) simp_all

lemma count_star_card:
  "count_star w rs = card {i. i < length rs \<and> is_true (w (rs ! i))}"
  by (simp add: count_star_filter length_filter_conv_card)

lemma min_agg_filter:
  "min_agg w col rs =
     (if filter (\<lambda>r. is_true (w r)) rs = [] then None
      else Some (Min (col ` set (filter (\<lambda>r. is_true (w r)) rs))))"
proof (induction rs)
  case Nil
  show ?case by simp
next
  case (Cons r rs)
  show ?case
  proof (cases "is_true (w r)")
    case False
    with Cons show ?thesis by simp
  next
    case True
    show ?thesis
    proof (cases "filter (\<lambda>r. is_true (w r)) rs = []")
      case True
      with \<open>is_true (w r)\<close> Cons show ?thesis by simp
    next
      case False
      then have ne: "col ` set (filter (\<lambda>r. is_true (w r)) rs) \<noteq> {}"
        by (simp only: image_is_empty set_empty not_False_eq_True)
      have fin: "finite (col ` set (filter (\<lambda>r. is_true (w r)) rs))" by simp
      from \<open>is_true (w r)\<close> False Cons show ?thesis
        using Min_insert [OF fin ne, of "col r"] by simp
    qed
  qed
qed

lemma window_where_true:
  "is_true (window_where (Some u) (Some op) since r) \<longleftrightarrow>
     rl_user_id r = u \<and> rl_operation r = op \<and> since < rl_created_at r"
  by (auto simp: window_where_def is_true_def sql_and_def sql_eq_def sql_gt_def)

lemma count_query_matches:
  "list_all (row_matches r) (filters (count_query config since)) \<longleftrightarrow>
     rl_user_id r = userId config \<and> rl_operation r = operation config \<and>
     toISOString since \<le> rl_created_at r"
  by (simp add: count_query_def)

lemma count_query_known:
  "from_table (count_query config since) = ''rate_limit_logs'' \<and>
   list_all filter_known (filters (count_query config since))"
  by (simp add: count_query_def)

lemma select_count_min_entries:
  "select_count_min db (Some u) (Some op) since =
     (length (entries_in_window db u op since),
      if entries_in_window db u op since = [] then None
      else Some (Min (rl_created_at ` set (entries_in_window db u op since))))"
  by (simp only: select_count_min_def count_star_filter min_agg_filter window_where_true
        entries_in_window_def)

text \<open>A caller signed in as another user is turned away before any table is read.\<close>

lemma get_rate_limit_status_other_user:
  "a \<noteq> b \<Longrightarrow>
   get_rate_limit_status db (Some b) NOW (Some a) p_operation =
     (Inl (raise_exception ''Unauthorized: Users can only check their own rate limits''), [])"
  by (simp add: get_rate_limit_status_def sql_ne_def is_true_def)

text \<open>The example configuration is the row of the table for notes generation.\<close>

lemma notes_config_from_table: "config_for ''user-a'' ''generate-notes'' = Some notes_config"
  by (simp add: config_for_def DEFAULT_RATE_LIMITS_def notes_config_def)

text \<open>A used count is a whole number, so below a whole limit it leaves room for one more.\<close>

lemma or_zero_whole: "or_zero c \<in> \<int>"
  by (simp add: or_zero_def split: option.splits)

lemma whole_gap:
  assumes "L \<in> \<int>" and "or_zero c < L"
  shows "or_zero c + 1 \<le> L"
proof -
  from assms(1) obtain k where k: "L = of_int k" by (rule Ints_cases)
  from or_zero_whole obtain j where j: "or_zero c = of_int j" by (rule Ints_cases)
  from assms(2) k j have "j < k" by simp
  then have "j + 1 \<le> k" by simp
  then have "(of_int (j + 1) :: real) \<le> of_int k" by (simp only: of_int_le_iff)
  with k j show ?thesis by simp
qed

text \<open>The two requests of one call differ, as their windows do.\<close>

lemma hourly_query_not_daily:
  "count_query config (now - 3600000) \<noteq> count_query config (now - 86400000)"
  by (simp add: count_query_def toISOString_def)

text \<open>A fractional limit is printed with its digits after the point.\<close>

lemma number_toString_fraction: "number_toString (5 / 2) = ''2.5''"
  by (simp add: number_toString_def unsigned_toString_def nat_toString.simps digit_char_def
        eval_nat_numeral)

section \<open>Fail-open on a storage error\<close>

text \<open>
  C1. When the hourly query reports an error, \<open>checkRateLimit\<close> allows the request
  whatever count the reply carries, with \<open>remaining = limitsPerHour\<close>, the reset times
  one hour and twenty-four hours after \<open>now\<close>, and the message that the check failed and
  the request is allowed. When the hourly query succeeds and the daily query reports an
  error, the same holds with \<open>remaining = limitsPerDay\<close>, whatever the two counts are.
\<close>

theorem checkRateLimit_fail_open:
  "(supabaseClient (count_query config (now - 60 * 60 * 1000)) = Resolved hourly \<and>
    error hourly \<noteq> None \<longrightarrow>
      fst (checkRateLimit supabaseClient now config) =
        \<lparr>allowed = True, remaining = limitsPerHour config,
         resetAtHour = now + 3600000, resetAtDay = now + 86400000,
         message = Some ''Rate limit check failed (allowing request)''\<rparr>) \<and>
   (supabaseClient (count_query config (now - 60 * 60 * 1000)) = Resolved hourly \<and>
    error hourly = None \<and>
    supabaseClient (count_query config (now - 24 * 60 * 60 * 1000)) = Resolved daily \<and>
    error daily \<noteq> None \<longrightarrow>
      fst (checkRateLimit supabaseClient now config) =
        \<lparr>allowed = True, remaining = limitsPerDay config,
         resetAtHour = now + 3600000, resetAtDay = now + 86400000,
         message = Some ''Rate limit check failed (allowing request)''\<rparr>)"
  by (simp add: checkRateLimit_def result_at_def check_failed_message_def Let_def)

theorem checkRateLimit_fail_open_witness:
  "fst (checkRateLimit
          (scripted_client 1769040000000 notes_config
             (Resolved \<lparr>count = Some 7, error = Some ''connection refused''\<rparr>)
             (Resolved \<lparr>count = Some 7, error = None\<rparr>))
          1769040000000 notes_config) =
     \<lparr>allowed = True, remaining = 3,
      resetAtHour = 1769043600000, resetAtDay = 1769126400000,
      message = Some ''Rate limit check failed (allowing request)''\<rparr> \<and>
   fst (checkRateLimit
          (scripted_client 1769040000000 notes_config
             (Resolved \<lparr>count = Some 7, error = None\<rparr>)
             (Resolved \<lparr>count = Some 40, error = Some ''statement timeout''\<rparr>))
          1769040000000 notes_config) =
     \<lparr>allowed = True, remaining = 10,
      resetAtHour = 1769043600000, resetAtDay = 1769126400000,
      message = Some ''Rate limit check failed (allowing request)''\<rparr>"
  using
    checkRateLimit_fail_open [of
      "scripted_client 1769040000000 notes_config
         (Resolved \<lparr>count = Some 7, error = Some ''connection refused''\<rparr>)
         (Resolved \<lparr>count = Some 7, error = None\<rparr>)"
      notes_config 1769040000000
      "\<lparr>count = Some 7, error = Some ''connection refused''\<rparr>"
      "\<lparr>count = Some 7, error = None\<rparr>"]
    checkRateLimit_fail_open [of
      "scripted_client 1769040000000 notes_config
         (Resolved \<lparr>count = Some 7, error = None\<rparr>)
         (Resolved \<lparr>count = Some 40, error = Some ''statement timeout''\<rparr>)"
      notes_config 1769040000000
      "\<lparr>count = Some 7, error = None\<rparr>"
      "\<lparr>count = Some 40, error = Some ''statement timeout''\<rparr>"]
  by (simp add: scripted_client_def count_query_def toISOString_def notes_config_def)

section \<open>Thresholds\<close>

text \<open>
  C2 (as amended). When both queries resolve without an error and the hourly count is
  \<open>limitsPerHour\<close> or more, \<open>checkRateLimit\<close> denies with \<open>remaining = 0\<close>, the reset
  times one hour and twenty-four hours after \<open>now\<close>, and the message that names the
  operation and the hourly limit; when the hourly count is below \<open>limitsPerHour\<close> and the
  daily count below \<open>limitsPerDay\<close>, it allows.
\<close>

theorem checkRateLimit_hourly_threshold:
  assumes "supabaseClient (count_query config (now - 3600000)) = Resolved hourly"
    and "error hourly = None"
    and "supabaseClient (count_query config (now - 86400000)) = Resolved daily"
    and "error daily = None"
  shows "(limitsPerHour config \<le> or_zero (count hourly) \<longrightarrow>
            fst (checkRateLimit supabaseClient now config) =
              \<lparr>allowed = False, remaining = 0,
               resetAtHour = now + 3600000, resetAtDay = now + 86400000,
               message = Some (''Rate limit exceeded for '' @ operation config @ ''. Max '' @
                 number_toString (limitsPerHour config) @
                 '' requests per hour. Try again in an hour.'')\<rparr>) \<and>
         (or_zero (count hourly) < limitsPerHour config \<and>
          or_zero (count daily) < limitsPerDay config \<longrightarrow>
            allowed (fst (checkRateLimit supabaseClient now config)))"
  using assms
  by (simp add: checkRateLimit_def result_at_def hourly_message_def Let_def)

theorem checkRateLimit_hourly_threshold_witness:
  "fst (checkRateLimit
          (scripted_client 1769040000000 notes_config
             (Resolved \<lparr>count = Some 3, error = None\<rparr>)
             (Resolved \<lparr>count = Some 3, error = None\<rparr>))
          1769040000000 notes_config) =
     \<lparr>allowed = False, remaining = 0,
      resetAtHour = 1769043600000, resetAtDay = 1769126400000,
      message = Some
        ''Rate limit exceeded for generate-notes. Max 3 requests per hour. Try again in an hour.''\<rparr> \<and>
   allowed (fst (checkRateLimit
          (scripted_client 1769040000000 notes_config
             (Resolved \<lparr>count = Some 2, error = None\<rparr>)
             (Resolved \<lparr>count = Some 2, error = None\<rparr>))
          1769040000000 notes_config))"
proof -
  have three: "number_toString 3 = ''3''"
    by (simp add: number_toString_def unsigned_toString_def nat_toString.simps digit_char_def)
  have denied:
    "fst (checkRateLimit
          (scripted_client 1769040000000 notes_config
             (Resolved \<lparr>count = Some 3, error = None\<rparr>)
             (Resolved \<lparr>count = Some 3, error = None\<rparr>))
          1769040000000 notes_config) =
     \<lparr>allowed = False, remaining = 0,
      resetAtHour = 1769043600000, resetAtDay = 1769126400000,
      message = Some
        ''Rate limit exceeded for generate-notes. Max 3 requests per hour. Try again in an hour.''\<rparr>"
    using checkRateLimit_hourly_threshold [of
      "scripted_client 1769040000000 notes_config
         (Resolved \<lparr>count = Some 3, error = None\<rparr>)
         (Resolved \<lparr>count = Some 3, error = None\<rparr>)"
      notes_config 1769040000000
      "\<lparr>count = Some 3, error = None\<rparr>" "\<lparr>count = Some 3, error = None\<rparr>"] three
    by (simp add: scripted_client_def count_query_def toISOString_def notes_config_def
          or_zero_def)
  have allowed:
    "allowed (fst (checkRateLimit
          (scripted_client 1769040000000 notes_config
             (Resolved \<lparr>count = Some 2, error = None\<rparr>)
             (Resolved \<lparr>count = Some 2, error = None\<rparr>))
          1769040000000 notes_config))"
    using checkRateLimit_hourly_threshold [of
      "scripted_client 1769040000000 notes_config
         (Resolved \<lparr>count = Some 2, error = None\<rparr>)
         (Resolved \<lparr>count = Some 2, error = None\<rparr>)"
      notes_config 1769040000000
      "\<lparr>count = Some 2, error = None\<rparr>" "\<lparr>count = Some 2, error = None\<rparr>"]
    by (simp add: scripted_client_def count_query_def toISOString_def notes_config_def
          or_zero_def)
  from denied allowed show ?thesis by simp
qed

text \<open>
  C2 as stated fails: with the hourly count at the limit and a daily query that reports
  an error, the request is allowed.
\<close>

theorem checkRateLimit_hourly_threshold_counterexample:
  "limitsPerHour notes_config \<le> or_zero (count \<lparr>count = Some 3, error = None\<rparr>) \<and>
   allowed (fst (checkRateLimit
      (scripted_client 1769040000000 notes_config
         (Resolved \<lparr>count = Some 3, error = None\<rparr>)
         (Resolved \<lparr>count = None, error = Some ''statement timeout''\<rparr>))
      1769040000000 notes_config))"
  by (simp add: checkRateLimit_def scripted_client_def count_query_def toISOString_def
        notes_config_def result_at_def or_zero_def Let_def)

section \<open>Order of the two checks\<close>

text \<open>
  C3 (as amended). The hourly window is queried first. The daily window is queried
  exactly when the hourly query resolves without an error, whatever the hourly count
  is; it is skipped only when the hourly query rejects or reports an error. The hourly
  limit is compared first: when both queries resolve without an error and the hourly
  count is \<open>limitsPerHour\<close> or more, the result is the hourly denial whatever the daily
  count is.
\<close>

theorem checkRateLimit_query_order:
  "queries (snd (checkRateLimit supabaseClient now config)) =
     (case supabaseClient (count_query config (now - 3600000)) of
        Rejected e \<Rightarrow> [count_query config (now - 3600000)]
      | Resolved hourly \<Rightarrow>
          if error hourly \<noteq> None then [count_query config (now - 3600000)]
          else [count_query config (now - 3600000), count_query config (now - 86400000)]) \<and>
   (\<forall>hourly daily.
      supabaseClient (count_query config (now - 3600000)) = Resolved hourly \<and>
      error hourly = None \<and>
      supabaseClient (count_query config (now - 86400000)) = Resolved daily \<and>
      error daily = None \<and>
      limitsPerHour config \<le> or_zero (count hourly) \<longrightarrow>
        fst (checkRateLimit supabaseClient now config) =
          result_at now False 0 (Some (hourly_message config)))"
  by (simp add: checkRateLimit_def caught_def Let_def split: js_outcome.splits)

theorem checkRateLimit_query_order_witness:
  "queries (snd (checkRateLimit
      (scripted_client 1769040000000 notes_config
         (Resolved \<lparr>count = Some 5, error = None\<rparr>)
         (Resolved \<lparr>count = Some 12, error = None\<rparr>))
      1769040000000 notes_config)) =
     [count_query notes_config 1769036400000, count_query notes_config 1768953600000] \<and>
   fst (checkRateLimit
      (scripted_client 1769040000000 notes_config
         (Resolved \<lparr>count = Some 5, error = None\<rparr>)
         (Resolved \<lparr>count = Some 12, error = None\<rparr>))
      1769040000000 notes_config) =
     result_at 1769040000000 False 0 (Some (hourly_message notes_config))"
  using checkRateLimit_query_order [of
      "scripted_client 1769040000000 notes_config
         (Resolved \<lparr>count = Some 5, error = None\<rparr>)
         (Resolved \<lparr>count = Some 12, error = None\<rparr>)"
      1769040000000 notes_config]
  by (simp add: scripted_client_def count_query_def toISOString_def notes_config_def
        or_zero_def)

text \<open>
  C3 as stated fails: with an hourly count of 5 against a limit of 3, the daily window
  is among the queries the call has issued.
\<close>

theorem checkRateLimit_short_circuit_counterexample:
  "limitsPerHour notes_config \<le> or_zero (count \<lparr>count = Some 5, error = None\<rparr>) \<and>
   count_query notes_config (1769040000000 - 24 * 60 * 60 * 1000) \<in>
     set (queries (snd (checkRateLimit
       (scripted_client 1769040000000 notes_config
          (Resolved \<lparr>count = Some 5, error = None\<rparr>)
          (Resolved \<lparr>count = Some 12, error = None\<rparr>))
       1769040000000 notes_config)))"
  by (simp add: checkRateLimit_def scripted_client_def count_query_def toISOString_def
        notes_config_def or_zero_def Let_def)

section \<open>Who may read a status\<close>

text \<open>
  C4. The specification requires every caller whose identity is not the requested user
  to be turned away before any read. \<open>get_rate_limit_status\<close> compares with \<open>!=\<close>, which is \<open>NULL\<close>
  when \<open>auth.uid()\<close> is \<open>NULL\<close>, and \<open>IF\<close> then skips the \<open>RAISE\<close>: a caller whose
  token names no user asks for user-a's status, both statements read the log, and the
  counts and reset times of user-a are returned.
\<close>

theorem get_rate_limit_status_null_caller:
  "get_rate_limit_status (one_user_db [notes_row ''r1'' 1769039000000000]) None
      1769040000000000 (Some ''user-a'') (Some ''generate-notes'') =
     (Inr \<lparr>requests_this_hour = 1, requests_this_day = 1,
           hour_resets_at = Some 1769042600000000,
           day_resets_at = Some 1769125400000000\<rparr>,
      [''rate_limit_logs'', ''rate_limit_logs''])"
  by (simp add: get_rate_limit_status_def sql_ne_def is_true_def select_count_min_def
        one_user_db_def notes_row_def window_where_def sql_eq_def sql_gt_def sql_and_def
        interval_1_hour_def interval_1_day_def)

section \<open>Remaining budget\<close>

text \<open>
  C5 (as amended). When both queries resolve without an error: a denial has
  \<open>remaining = 0\<close>; an allowance has \<open>remaining = limitsPerHour - hourlyCount - 1\<close>, and
  this value is not negative whenever \<open>limitsPerHour\<close> is a whole number.
\<close>

theorem checkRateLimit_remaining:
  assumes "supabaseClient (count_query config (now - 3600000)) = Resolved hourly"
    and "error hourly = None"
    and "supabaseClient (count_query config (now - 86400000)) = Resolved daily"
    and "error daily = None"
  shows "(\<not> allowed (fst (checkRateLimit supabaseClient now config)) \<longrightarrow>
            remaining (fst (checkRateLimit supabaseClient now config)) = 0) \<and>
         (allowed (fst (checkRateLimit supabaseClient now config)) \<longrightarrow>
            remaining (fst (checkRateLimit supabaseClient now config)) =
              limitsPerHour config - or_zero (count hourly) - 1 \<and>
            (limitsPerHour config \<in> \<int> \<longrightarrow>
               0 \<le> remaining (fst (checkRateLimit supabaseClient now config))))"
proof -
  have room: "limitsPerHour config \<in> \<int> \<Longrightarrow> or_zero (count hourly) < limitsPerHour config \<Longrightarrow>
      0 \<le> limitsPerHour config - or_zero (count hourly) - 1"
    using whole_gap [of "limitsPerHour config" "count hourly"] by simp
  from assms room show ?thesis
    by (simp add: checkRateLimit_def result_at_def Let_def not_le)
qed

theorem checkRateLimit_remaining_witness:
  "limitsPerHour notes_config \<in> \<int> \<and>
   0 \<le> remaining (fst (checkRateLimit
      (scripted_client 1769040000000 notes_config
         (Resolved \<lparr>count = Some 1, error = None\<rparr>)
         (Resolved \<lparr>count = Some 4, error = None\<rparr>))
      1769040000000 notes_config)) \<and>
   allowed (fst (checkRateLimit
      (scripted_client 1769040000000 notes_config
         (Resolved \<lparr>count = Some 1, error = None\<rparr>)
         (Resolved \<lparr>count = Some 4, error = None\<rparr>))
      1769040000000 notes_config)) \<and>
   remaining (fst (checkRateLimit
      (scripted_client 1769040000000 notes_config
         (Resolved \<lparr>count = Some 1, error = None\<rparr>)
         (Resolved \<lparr>count = Some 4, error = None\<rparr>))
      1769040000000 notes_config)) = 1 \<and>
   \<not> allowed (fst (checkRateLimit
      (scripted_client 1769040000000 notes_config
         (Resolved \<lparr>count = Some 1, error = None\<rparr>)
         (Resolved \<lparr>count = Some 10, error = None\<rparr>))
      1769040000000 notes_config)) \<and>
   remaining (fst (checkRateLimit
      (scripted_client 1769040000000 notes_config
         (Resolved \<lparr>count = Some 1, error = None\<rparr>)
         (Resolved \<lparr>count = Some 10, error = None\<rparr>))
      1769040000000 notes_config)) = 0"
proof -
  have a: "allowed (fst (checkRateLimit
      (scripted_client 1769040000000 notes_config
         (Resolved \<lparr>count = Some 1, error = None\<rparr>)
         (Resolved \<lparr>count = Some 4, error = None\<rparr>))
      1769040000000 notes_config))"
    by (simp add: checkRateLimit_def scripted_client_def count_query_def toISOString_def
          notes_config_def or_zero_def result_at_def Let_def)
  have d: "\<not> allowed (fst (checkRateLimit
      (scripted_client 1769040000000 notes_config
         (Resolved \<lparr>count = Some 1, error = None\<rparr>)
         (Resolved \<lparr>count = Some 10, error = None\<rparr>))
      1769040000000 notes_config))"
    by (simp add: checkRateLimit_def scripted_client_def count_query_def toISOString_def
          notes_config_def or_zero_def result_at_def Let_def)
  from a d show ?thesis
    using checkRateLimit_remaining [of
        "scripted_client 1769040000000 notes_config
           (Resolved \<lparr>count = Some 1, error = None\<rparr>)
           (Resolved \<lparr>count = Some 4, error = None\<rparr>)"
        notes_config 1769040000000
        "\<lparr>count = Some 1, error = None\<rparr>" "\<lparr>count = Some 4, error = None\<rparr>"]
      checkRateLimit_remaining [of
        "scripted_client 1769040000000 notes_config
           (Resolved \<lparr>count = Some 1, error = None\<rparr>)
           (Resolved \<lparr>count = Some 10, error = None\<rparr>)"
        notes_config 1769040000000
        "\<lparr>count = Some 1, error = None\<rparr>" "\<lparr>count = Some 10, error = None\<rparr>"]
    by (simp add: scripted_client_def count_query_def toISOString_def notes_config_def
          or_zero_def)
qed

text \<open>
  C5 as stated fails: with an hourly limit of 2.5 and two requests counted in the hour,
  the request is allowed and \<open>remaining\<close> is -0.5.
\<close>

theorem checkRateLimit_remaining_counterexample:
  "allowed (fst (checkRateLimit
      (scripted_client 1769040000000 fractional_config
         (Resolved \<lparr>count = Some 2, error = None\<rparr>)
         (Resolved \<lparr>count = Some 2, error = None\<rparr>))
      1769040000000 fractional_config)) \<and>
   remaining (fst (checkRateLimit
      (scripted_client 1769040000000 fractional_config
         (Resolved \<lparr>count = Some 2, error = None\<rparr>)
         (Resolved \<lparr>count = Some 2, error = None\<rparr>))
      1769040000000 fractional_config)) = - (1 / 2) \<and>
   remaining (fst (checkRateLimit
      (scripted_client 1769040000000 fractional_config
         (Resolved \<lparr>count = Some 2, error = None\<rparr>)
         (Resolved \<lparr>count = Some 2, error = None\<rparr>))
      1769040000000 fractional_config)) < 0"
  by (simp add: checkRateLimit_def scripted_client_def count_query_def toISOString_def
        fractional_config_def or_zero_def result_at_def Let_def)

section \<open>Status of a user\<close>

text \<open>
  C6. For a caller who asks for their own status, \<open>get_rate_limit_status\<close> returns the
  number of entries of the user and operation in the trailing hour and in the trailing
  day; each reset time is the creation time of the oldest entry of its window plus the
  length of the window, and is \<open>NULL\<close> when the window holds no entry.
\<close>

theorem get_rate_limit_status_counts:
  assumes "auth_uid = Some u"
  shows "fst (get_rate_limit_status db auth_uid NOW (Some u) (Some op)) =
     Inr \<lparr>requests_this_hour = int (length (entries_in_window db u op (NOW - interval_1_hour))),
          requests_this_day = int (length (entries_in_window db u op (NOW - interval_1_day))),
          hour_resets_at =
            (if entries_in_window db u op (NOW - interval_1_hour) = [] then None
             else Some (Min (rl_created_at ` set (entries_in_window db u op (NOW - interval_1_hour)))
                        + interval_1_hour)),
          day_resets_at =
            (if entries_in_window db u op (NOW - interval_1_day) = [] then None
             else Some (Min (rl_created_at ` set (entries_in_window db u op (NOW - interval_1_day)))
                        + interval_1_day))\<rparr>"
proof -
  have pass: "\<not> is_true (sql_ne (Some u) auth_uid)"
    using assms by (simp add: sql_ne_def is_true_def)
  show ?thesis
    unfolding get_rate_limit_status_def
    by (simp only: pass if_False Let_def select_count_min_entries prod.case fst_conv)
       simp
qed

theorem get_rate_limit_status_counts_witness:
  "fst (get_rate_limit_status (one_user_db []) (Some ''user-a'') 1769040000000000
          (Some ''user-a'') (Some ''generate-notes'')) =
     Inr \<lparr>requests_this_hour = 0, requests_this_day = 0,
          hour_resets_at = None, day_resets_at = None\<rparr> \<and>
   fst (get_rate_limit_status
          (one_user_db [notes_row ''r1'' 1769000000000000, notes_row ''r2'' 1769039000000000,
                        notes_row ''r3'' 1769039500000000])
          (Some ''user-a'') 1769040000000000 (Some ''user-a'') (Some ''generate-notes'')) =
     Inr \<lparr>requests_this_hour = 2, requests_this_day = 3,
          hour_resets_at = Some 1769042600000000,
          day_resets_at = Some 1769086400000000\<rparr>"
  using get_rate_limit_status_counts [of "Some ''user-a''" "''user-a''" "one_user_db []"
      1769040000000000 "''generate-notes''"]
    get_rate_limit_status_counts [of "Some ''user-a''" "''user-a''"
      "one_user_db [notes_row ''r1'' 1769000000000000, notes_row ''r2'' 1769039000000000,
                    notes_row ''r3'' 1769039500000000]"
      1769040000000000 "''generate-notes''"]
  by (simp add: entries_in_window_def one_user_db_def notes_row_def interval_1_hour_def
        interval_1_day_def)

section \<open>Failures of the log writes\<close>

text \<open>
  C7 (as amended). A failure of the write to the request log never reaches the caller
  of \<open>logRateLimitRequest\<close>, which never throws: an exception of the insert is caught
  and reported on the console. A failure of the write to the audit log does reach the
  caller of \<open>log_audit_event\<close>, which has no handler: every error of its insert is the
  error of the call. The insert fails exactly when \<open>user_id\<close>, \<open>action\<close> or
  \<open>resource_type\<close> is \<open>NULL\<close>, the identifier is taken, or the user is not in
  \<open>auth.users\<close>; otherwise the call appends the row and returns its identifier.
\<close>

theorem logging_failures:
  "logRateLimitRequest supabaseClient uid op ok metadata =
     (Resolved (),
      case supabaseClient \<lparr>ins_user_id = uid, ins_operation = op, ins_success = ok,
                            ins_metadata = metadata, ins_ip_address = None\<rparr> of
        Rejected e \<Rightarrow> [''Error logging rate limit request:'']
      | Resolved reply \<Rightarrow> []) \<and>
   (\<forall>e. insert_audit_logs db new_id NOW p_user_id p_action p_resource_type p_resource_id
           p_metadata = Inl e \<longrightarrow>
        log_audit_event db new_id NOW p_user_id p_action p_resource_type p_resource_id
           p_metadata = Inl e) \<and>
   ((\<exists>e. log_audit_event db new_id NOW p_user_id p_action p_resource_type p_resource_id
           p_metadata = Inl e) \<longleftrightarrow>
      p_user_id = None \<or> p_action = None \<or> p_resource_type = None \<or>
      new_id \<in> al_id ` set (audit_logs db) \<or>
      (\<exists>u. p_user_id = Some u \<and> u \<notin> set (auth_users db))) \<and>
   (\<forall>u a t.
      p_user_id = Some u \<and> p_action = Some a \<and> p_resource_type = Some t \<and>
      new_id \<notin> al_id ` set (audit_logs db) \<and> u \<in> set (auth_users db) \<longrightarrow>
        log_audit_event db new_id NOW p_user_id p_action p_resource_type p_resource_id
           p_metadata =
          Inr (new_id,
               db\<lparr>audit_logs := audit_logs db @
                  [\<lparr>al_id = new_id, al_user_id = u, al_action = a, al_resource_type = t,
                    al_resource_id = p_resource_id, al_metadata = p_metadata,
                    al_ip_address = None, al_user_agent = None,
                    al_created_at = NOW\<rparr>]\<rparr>))"
proof -
  have a: "logRateLimitRequest supabaseClient uid op ok metadata =
     (Resolved (),
      case supabaseClient \<lparr>ins_user_id = uid, ins_operation = op, ins_success = ok,
                            ins_metadata = metadata, ins_ip_address = None\<rparr> of
        Rejected e \<Rightarrow> [''Error logging rate limit request:'']
      | Resolved reply \<Rightarrow> [])"
    by (simp add: logRateLimitRequest_def split: js_outcome.splits)
  have b: "\<forall>e. insert_audit_logs db new_id NOW p_user_id p_action p_resource_type p_resource_id
           p_metadata = Inl e \<longrightarrow>
        log_audit_event db new_id NOW p_user_id p_action p_resource_type p_resource_id
           p_metadata = Inl e"
    by (simp add: log_audit_event_def)
  have c: "(\<exists>e. log_audit_event db new_id NOW p_user_id p_action p_resource_type p_resource_id
           p_metadata = Inl e) \<longleftrightarrow>
      p_user_id = None \<or> p_action = None \<or> p_resource_type = None \<or>
      new_id \<in> al_id ` set (audit_logs db) \<or>
      (\<exists>u. p_user_id = Some u \<and> u \<notin> set (auth_users db))"
    by (auto simp: log_audit_event_def insert_audit_logs_def split: option.splits)
  have d: "\<forall>u a t.
      p_user_id = Some u \<and> p_action = Some a \<and> p_resource_type = Some t \<and>
      new_id \<notin> al_id ` set (audit_logs db) \<and> u \<in> set (auth_users db) \<longrightarrow>
        log_audit_event db new_id NOW p_user_id p_action p_resource_type p_resource_id
           p_metadata =
          Inr (new_id,
               db\<lparr>audit_logs := audit_logs db @
                  [\<lparr>al_id = new_id, al_user_id = u, al_action = a, al_resource_type = t,
                    al_resource_id = p_resource_id, al_metadata = p_metadata,
                    al_ip_address = None, al_user_agent = None,
                    al_created_at = NOW\<rparr>]\<rparr>)"
    by (simp add: log_audit_event_def insert_audit_logs_def)
  show ?thesis by (rule conjI [OF a conjI [OF b conjI [OF c d]]])
qed

theorem logging_failures_witness:
  "insert_audit_logs (one_user_db []) ''id-1'' 1769040000000000 (Some ''user-a'') None
      (Some ''quiz'') None None = Inl (not_null_violation ''action'') \<and>
   log_audit_event (one_user_db []) ''id-1'' 1769040000000000 (Some ''user-a'') None
      (Some ''quiz'') None None = Inl (not_null_violation ''action'') \<and>
   logRateLimitRequest (\<lambda>row. Rejected ''TypeError: fetch failed'') ''user-a''
      ''generate-notes'' True None =
     (Resolved (), [''Error logging rate limit request:'']) \<and>
   log_audit_event (one_user_db []) ''id-1'' 1769040000000000 (Some ''user-a'')
      (Some ''quiz_submitted'') (Some ''quiz'') (Some ''quiz-7'') None =
     Inr (''id-1'',
          \<lparr>auth_users = [''user-a''], rate_limit_logs = [],
           audit_logs =
             [\<lparr>al_id = ''id-1'', al_user_id = ''user-a'', al_action = ''quiz_submitted'',
               al_resource_type = ''quiz'', al_resource_id = Some ''quiz-7'',
               al_metadata = None, al_ip_address = None, al_user_agent = None,
               al_created_at = 1769040000000000\<rparr>]\<rparr>)"
proof -
  note failing = logging_failures [of "\<lambda>row. Rejected ''TypeError: fetch failed''" "''user-a''"
        "''generate-notes''" True None "one_user_db []" "''id-1''" 1769040000000000
        "Some ''user-a''" None "Some ''quiz''" None None]
  note passing = logging_failures [of "\<lambda>row. Rejected ''TypeError: fetch failed''" "''user-a''"
        "''generate-notes''" True None "one_user_db []" "''id-1''" 1769040000000000
        "Some ''user-a''" "Some ''quiz_submitted''" "Some ''quiz''" "Some ''quiz-7''" None]
  have fails: "insert_audit_logs (one_user_db []) ''id-1'' 1769040000000000 (Some ''user-a'') None
      (Some ''quiz'') None None = Inl (not_null_violation ''action'')"
    by (simp add: insert_audit_logs_def)
  have request: "logRateLimitRequest (\<lambda>row. Rejected ''TypeError: fetch failed'') ''user-a''
      ''generate-notes'' True None =
     (Resolved (), [''Error logging rate limit request:''])"
    using failing [THEN conjunct1] by simp
  have reaches: "log_audit_event (one_user_db []) ''id-1'' 1769040000000000 (Some ''user-a'') None
      (Some ''quiz'') None None = Inl (not_null_violation ''action'')"
    using failing [THEN conjunct2, THEN conjunct1] fails by blast
  have stored: "log_audit_event (one_user_db []) ''id-1'' 1769040000000000 (Some ''user-a'')
      (Some ''quiz_submitted'') (Some ''quiz'') (Some ''quiz-7'') None =
     Inr (''id-1'',
          \<lparr>auth_users = [''user-a''], rate_limit_logs = [],
           audit_logs =
             [\<lparr>al_id = ''id-1'', al_user_id = ''user-a'', al_action = ''quiz_submitted'',
               al_resource_type = ''quiz'', al_resource_id = Some ''quiz-7'',
               al_metadata = None, al_ip_address = None, al_user_agent = None,
               al_created_at = 1769040000000000\<rparr>]\<rparr>)"
  proof -
    have free: "Some ''user-a'' = Some ''user-a'' \<and>
        Some ''quiz_submitted'' = Some ''quiz_submitted'' \<and> Some ''quiz'' = Some ''quiz'' \<and>
        ''id-1'' \<notin> al_id ` set (audit_logs (one_user_db [])) \<and>
        ''user-a'' \<in> set (auth_users (one_user_db []))"
      by (simp add: one_user_db_def)
    from passing [THEN conjunct2, THEN conjunct2, THEN conjunct2, rule_format, OF free]
    show ?thesis by (simp add: one_user_db_def)
  qed
  show ?thesis by (rule conjI [OF fails conjI [OF reaches conjI [OF request stored]]])
qed

text \<open>
  C7 as stated fails for the audit log: an event for a user that \<open>auth.users\<close> does
  not hold violates the foreign key, and the caller of \<open>log_audit_event\<close> gets the error.
\<close>

theorem log_audit_event_failure_counterexample:
  "log_audit_event (one_user_db []) ''id-1'' 1769040000000000 (Some ''user-b'')
      (Some ''quiz_submitted'') (Some ''quiz'') None None =
     Inl (foreign_key_violation ''audit_logs_user_id_fkey'')"
  by (simp add: log_audit_event_def insert_audit_logs_def one_user_db_def)

section \<open>Unexpected exceptions\<close>

text \<open>
  C8. The specification requires the result of the \<open>catch\<close> block to be that of a
  storage error, message included. When the awaited hourly query rejects, \<open>checkRateLimit\<close> returns
  \<open>allowed = true\<close>, \<open>remaining = limitsPerHour\<close> and the two reset times, but no
  message; the branch for an error reply of the same query sets one.
\<close>

theorem checkRateLimit_catch_no_message:
  "checkRateLimit
      (scripted_client 1769040000000 notes_config
         (Rejected ''TypeError: fetch failed'') (Rejected ''TypeError: fetch failed''))
      1769040000000 notes_config =
     (\<lparr>allowed = True, remaining = 3,
       resetAtHour = 1769043600000, resetAtDay = 1769126400000,
       message = None\<rparr>,
      \<lparr>queries = [count_query notes_config 1769036400000],
       console = [''Unexpected error in rate limit check:'']\<rparr>) \<and>
   message (fst (checkRateLimit
      (scripted_client 1769040000000 notes_config
         (Resolved \<lparr>count = None, error = Some ''connection refused''\<rparr>)
         (Rejected ''TypeError: fetch failed''))
      1769040000000 notes_config)) =
     Some ''Rate limit check failed (allowing request)''"
  by (simp add: checkRateLimit_def caught_def scripted_client_def count_query_def
        toISOString_def notes_config_def result_at_def check_failed_message_def Let_def)

section \<open>What a window counts\<close>

text \<open>
  C9 (as amended). The count of \<open>get_rate_limit_status\<close> for a window is the number of
  log rows of the given user and operation created after the cutoff; the count behind a
  query of \<open>checkRateLimit\<close> is the number of such rows created at or after the cutoff.
  In both, deleting every row of another user or another operation leaves the count as
  it is.
\<close>

theorem window_counter_counts:
  "fst (select_count_min db (Some u) (Some op) since) =
     card {i. i < length (rate_limit_logs db) \<and>
              rl_user_id (rate_limit_logs db ! i) = u \<and>
              rl_operation (rate_limit_logs db ! i) = op \<and>
              since < rl_created_at (rate_limit_logs db ! i)} \<and>
   postgrest_count db (count_query config start) =
     Resolved \<lparr>count = Some (card {i. i < length (rate_limit_logs db) \<and>
                 rl_user_id (rate_limit_logs db ! i) = userId config \<and>
                 rl_operation (rate_limit_logs db ! i) = operation config \<and>
                 toISOString start \<le> rl_created_at (rate_limit_logs db ! i)}),
               error = None\<rparr> \<and>
   fst (select_count_min
          (db\<lparr>rate_limit_logs :=
                filter (\<lambda>r. rl_user_id r = u \<and> rl_operation r = op) (rate_limit_logs db)\<rparr>)
          (Some u) (Some op) since) =
     fst (select_count_min db (Some u) (Some op) since) \<and>
   postgrest_count
      (db\<lparr>rate_limit_logs :=
            filter (\<lambda>r. rl_user_id r = userId config \<and> rl_operation r = operation config)
                   (rate_limit_logs db)\<rparr>)
      (count_query config start) =
     postgrest_count db (count_query config start)"
proof -
  have sql: "fst (select_count_min db (Some u) (Some op) since) =
     card {i. i < length (rate_limit_logs db) \<and>
              rl_user_id (rate_limit_logs db ! i) = u \<and>
              rl_operation (rate_limit_logs db ! i) = op \<and>
              since < rl_created_at (rate_limit_logs db ! i)}"
    by (simp add: select_count_min_def count_star_card window_where_true)
  have ts: "postgrest_count db (count_query config start) =
     Resolved \<lparr>count = Some (card {i. i < length (rate_limit_logs db) \<and>
                 rl_user_id (rate_limit_logs db ! i) = userId config \<and>
                 rl_operation (rate_limit_logs db ! i) = operation config \<and>
                 toISOString start \<le> rl_created_at (rate_limit_logs db ! i)}),
               error = None\<rparr>"
    by (simp add: postgrest_count_def count_query_known count_star_card is_true_def
          count_query_matches)
  have sql_iso: "fst (select_count_min
          (db\<lparr>rate_limit_logs :=
                filter (\<lambda>r. rl_user_id r = u \<and> rl_operation r = op) (rate_limit_logs db)\<rparr>)
          (Some u) (Some op) since) =
     fst (select_count_min db (Some u) (Some op) since)"
    by (simp add: select_count_min_def count_star_filter window_where_true conj_commute
          cong: conj_cong)
       (metis (mono_tags, lifting) filter_cong)
  have ts_iso: "postgrest_count
      (db\<lparr>rate_limit_logs :=
            filter (\<lambda>r. rl_user_id r = userId config \<and> rl_operation r = operation config)
                   (rate_limit_logs db)\<rparr>)
      (count_query config start) =
     postgrest_count db (count_query config start)"
    by (simp add: postgrest_count_def count_query_known count_star_filter is_true_def
          count_query_matches)
       (metis (mono_tags, lifting) filter_cong)
  from sql ts sql_iso ts_iso show ?thesis by simp
qed

text \<open>
  C9 as stated fails at the boundary: a row created exactly at the cutoff of the hourly
  query of \<open>checkRateLimit\<close> is counted, though no row lies after the cutoff.
\<close>

theorem window_counter_boundary_counterexample:
  "postgrest_count (one_user_db [notes_row ''r1'' (toISOString (1769040000000 - 3600000))])
      (count_query notes_config (1769040000000 - 3600000)) =
     Resolved \<lparr>count = Some 1, error = None\<rparr> \<and>
   filter (\<lambda>r. rl_user_id r = userId notes_config \<and> rl_operation r = operation notes_config \<and>
               toISOString (1769040000000 - 3600000) < rl_created_at r)
     (rate_limit_logs (one_user_db [notes_row ''r1'' (toISOString (1769040000000 - 3600000))])) = []"
  by (simp add: postgrest_count_def count_query_def one_user_db_def notes_row_def
        notes_config_def toISOString_def is_true_def)

section \<open>Absent counts\<close>

text \<open>
  C10. A query that reports no error and a \<open>null\<close> count is treated as one that reports
  the count 0: whatever the other query answers, replacing the \<open>null\<close> count of the
  hourly reply, or of the daily reply, by 0 leaves the result and the effects of
  \<open>checkRateLimit\<close> as they are. Hence, when both queries resolve without an error and
  with a \<open>null\<close> count and both limits are at least 1, the request is allowed with
  \<open>remaining = limitsPerHour - 1\<close>.
\<close>

theorem checkRateLimit_null_counts:
  "checkRateLimit
      (supabaseClient(count_query config (now - 3600000) :=
         Resolved \<lparr>count = None, error = e\<rparr>)) now config =
   checkRateLimit
      (supabaseClient(count_query config (now - 3600000) :=
         Resolved \<lparr>count = Some 0, error = e\<rparr>)) now config \<and>
   checkRateLimit
      (supabaseClient(count_query config (now - 86400000) :=
         Resolved \<lparr>count = None, error = e\<rparr>)) now config =
   checkRateLimit
      (supabaseClient(count_query config (now - 86400000) :=
         Resolved \<lparr>count = Some 0, error = e\<rparr>)) now config \<and>
   (supabaseClient (count_query config (now - 3600000)) =
      Resolved \<lparr>count = None, error = None\<rparr> \<and>
    supabaseClient (count_query config (now - 86400000)) =
      Resolved \<lparr>count = None, error = None\<rparr> \<and>
    1 \<le> limitsPerHour config \<and> 1 \<le> limitsPerDay config \<longrightarrow>
      allowed (fst (checkRateLimit supabaseClient now config)) \<and>
      remaining (fst (checkRateLimit supabaseClient now config)) = limitsPerHour config - 1)"
proof -
  note differ = hourly_query_not_daily [of config now]
  have hourly: "checkRateLimit
      (supabaseClient(count_query config (now - 3600000) :=
         Resolved \<lparr>count = None, error = e\<rparr>)) now config =
   checkRateLimit
      (supabaseClient(count_query config (now - 3600000) :=
         Resolved \<lparr>count = Some 0, error = e\<rparr>)) now config"
    using differ
    by (simp add: checkRateLimit_def or_zero_def Let_def split: js_outcome.splits)
  have daily: "checkRateLimit
      (supabaseClient(count_query config (now - 86400000) :=
         Resolved \<lparr>count = None, error = e\<rparr>)) now config =
   checkRateLimit
      (supabaseClient(count_query config (now - 86400000) :=
         Resolved \<lparr>count = Some 0, error = e\<rparr>)) now config"
    using differ
    by (simp add: checkRateLimit_def or_zero_def Let_def split: js_outcome.splits)
  have both: "supabaseClient (count_query config (now - 3600000)) =
      Resolved \<lparr>count = None, error = None\<rparr> \<and>
    supabaseClient (count_query config (now - 86400000)) =
      Resolved \<lparr>count = None, error = None\<rparr> \<and>
    1 \<le> limitsPerHour config \<and> 1 \<le> limitsPerDay config \<longrightarrow>
      allowed (fst (checkRateLimit supabaseClient now config)) \<and>
      remaining (fst (checkRateLimit supabaseClient now config)) = limitsPerHour config - 1"
    by (simp add: checkRateLimit_def result_at_def or_zero_def Let_def)
  from hourly daily both show ?thesis by simp
qed

theorem checkRateLimit_null_counts_witness:
  "1 \<le> limitsPerHour notes_config \<and> 1 \<le> limitsPerDay notes_config \<and>
   allowed (fst (checkRateLimit
      (scripted_client 1769040000000 notes_config
         (Resolved \<lparr>count = None, error = None\<rparr>)
         (Resolved \<lparr>count = None, error = None\<rparr>))
      1769040000000 notes_config)) \<and>
   remaining (fst (checkRateLimit
      (scripted_client 1769040000000 notes_config
         (Resolved \<lparr>count = None, error = None\<rparr>)
         (Resolved \<lparr>count = None, error = None\<rparr>))
      1769040000000 notes_config)) = 2 \<and>
   fst (checkRateLimit
      ((scripted_client 1769040000000 notes_config
          (Resolved \<lparr>count = Some 7, error = None\<rparr>)
          (Resolved \<lparr>count = Some 5, error = None\<rparr>))
         (count_query notes_config (1769040000000 - 3600000) :=
            Resolved \<lparr>count = None, error = None\<rparr>))
      1769040000000 notes_config) =
     \<lparr>allowed = True, remaining = 2,
      resetAtHour = 1769043600000, resetAtDay = 1769126400000, message = None\<rparr>"
proof -
  have zero: "fst (checkRateLimit
      ((scripted_client 1769040000000 notes_config
          (Resolved \<lparr>count = Some 7, error = None\<rparr>)
          (Resolved \<lparr>count = Some 5, error = None\<rparr>))
         (count_query notes_config (1769040000000 - 3600000) :=
            Resolved \<lparr>count = Some 0, error = None\<rparr>))
      1769040000000 notes_config) =
     \<lparr>allowed = True, remaining = 2,
      resetAtHour = 1769043600000, resetAtDay = 1769126400000, message = None\<rparr>"
    by (simp add: checkRateLimit_def scripted_client_def count_query_def toISOString_def
          notes_config_def or_zero_def result_at_def Let_def)
  from zero show ?thesis
    using checkRateLimit_null_counts [of
        "scripted_client 1769040000000 notes_config
           (Resolved \<lparr>count = None, error = None\<rparr>)
           (Resolved \<lparr>count = None, error = None\<rparr>)"
        notes_config 1769040000000 None]
      checkRateLimit_null_counts [of
        "scripted_client 1769040000000 notes_config
           (Resolved \<lparr>count = Some 7, error = None\<rparr>)
           (Resolved \<lparr>count = Some 5, error = None\<rparr>)"
        notes_config 1769040000000 None]
    by (simp add: scripted_client_def count_query_def toISOString_def notes_config_def)
qed

end
